theory Spec2Isabelle
  imports Main "HOL-Library.Word"
begin

unbundle bit_operations_syntax

section \<open>The ControllerSpreadFilter scheduler plugin\<close>

text \<open>
  A shallow embedding of \<^verbatim>\<open>pkg/controllerspread/controller_spread.go\<close>: the
  owner-reference resolver \<^verbatim>\<open>getControllerInfo\<close>, the annotation parser
  \<^verbatim>\<open>parseMinHostsAnnotation\<close>, \<^verbatim>\<open>min\<close>, \<^verbatim>\<open>isOwnedByController\<close> and the
  plugin's \<^verbatim>\<open>Filter\<close> method.  Go strings are \<open>string\<close>, \<^verbatim>\<open>int32\<close> is a 32-bit
  word read through \<open>sint\<close>, a \<^verbatim>\<open>map[string]string\<close> is a partial function (the nil
  map is the empty one), a pointer field that may be nil is an \<open>option\<close>, and a lister
  call is a function of the plugin value that returns an error or an object.
\<close>

subsection \<open>Data model\<close>

type_synonym int32 = "32 word"

text \<open>\<^verbatim>\<open>type ControllerType string\<close> with its four constants.\<close>

type_synonym ControllerType = string

definition ReplicaSetType :: ControllerType where
  "ReplicaSetType = ''ReplicaSet''"

definition StatefulSetType :: ControllerType where
  "StatefulSetType = ''StatefulSet''"

definition JobType :: ControllerType where
  "JobType = ''Job''"

definition CronJobType :: ControllerType where
  "CronJobType = ''CronJob''"

definition minHostsAnnotationKey :: string where
  "minHostsAnnotationKey = ''controller-spread-scheduler/min-hosts''"

record ControllerInfo =
  ci_Type :: ControllerType
  ci_UID :: string
  ci_Name :: string

text \<open>The fields of \<^verbatim>\<open>metav1.OwnerReference\<close> that the plugin reads.\<close>

record OwnerReference =
  or_Kind :: string
  or_UID :: string
  or_Name :: string

text \<open>\<^verbatim>\<open>v1.PodPhase\<close> is a string type; these are the two values the plugin compares with.\<close>

type_synonym PodPhase = string

definition PodPending :: PodPhase where
  "PodPending = ''Pending''"

definition PodRunning :: PodPhase where
  "PodRunning = ''Running''"

text \<open>
  The fields of \<^verbatim>\<open>v1.Pod\<close> that the plugin reads (\<open>pod_Name\<close> is carried only to tell
  pods apart): \<^verbatim>\<open>Namespace\<close>, \<^verbatim>\<open>OwnerReferences\<close>, \<^verbatim>\<open>Spec.NodeName\<close> and
  \<^verbatim>\<open>Status.Phase\<close>.
\<close>

record Pod =
  pod_Name :: string
  pod_Namespace :: string
  pod_OwnerReferences :: "OwnerReference list"
  pod_NodeName :: string
  pod_Phase :: PodPhase

type_synonym Annotations = "string \<rightharpoonup> string"

record ReplicaSet =
  rs_Replicas :: "int32 option"
  rs_Annotations :: Annotations

record StatefulSet =
  sts_Replicas :: "int32 option"
  sts_Annotations :: Annotations

record Job =
  job_Parallelism :: "int32 option"
  job_Annotations :: Annotations

text \<open>\<open>cj_Parallelism\<close> is \<^verbatim>\<open>Spec.JobTemplate.Spec.Parallelism\<close>.\<close>

record CronJob =
  cj_Parallelism :: "int32 option"
  cj_Annotations :: Annotations

text \<open>A Go \<^verbatim>\<open>error\<close> value, with the text its \<^verbatim>\<open>Error()\<close> method returns.\<close>

datatype goerror = NotFound string | StoreError string

fun Error_text :: "goerror \<Rightarrow> string" where
  "Error_text (NotFound m) = m"
| "Error_text (StoreError m) = m"

text \<open>
  The plugin value: each lister field is the call the plugin makes on it.
  \<open>podLister csf ns\<close> is \<^verbatim>\<open>csf.podLister.Pods(ns).List(labels.Everything())\<close>,
  \<open>rsLister csf ns name\<close> is \<^verbatim>\<open>csf.rsLister.ReplicaSets(ns).Get(name)\<close>, and so on.
\<close>

record ControllerSpreadFilter =
  podLister :: "string \<Rightarrow> goerror + Pod list"
  rsLister :: "string \<Rightarrow> string \<Rightarrow> goerror + ReplicaSet"
  stsLister :: "string \<Rightarrow> string \<Rightarrow> goerror + StatefulSet"
  jobLister :: "string \<Rightarrow> string \<Rightarrow> goerror + Job"
  cronJobLister :: "string \<Rightarrow> string \<Rightarrow> goerror + CronJob"

text \<open>The store reads an invocation performs, in order.\<close>

datatype store_read =
    GetReplicaSet string string
  | GetStatefulSet string string
  | GetJob string string
  | GetCronJob string string
  | ListPods string

text \<open>
  The state of the \<^verbatim>\<open>context.Context\<close> handed to \<^verbatim>\<open>Filter\<close>: live, cancelled, or
  past its deadline.
\<close>

datatype Context = Live | Canceled | DeadlineExceeded

datatype CycleState = CycleState

text \<open>
  \<^verbatim>\<open>nodeInfo.Node().Name\<close> is the only thing read of the candidate node; the
  framework calls \<^verbatim>\<open>Filter\<close> with a node that is not nil.
\<close>

record NodeInfo =
  node_Name :: string

text \<open>\<^verbatim>\<open>framework.NewStatus(code, reasons...)\<close>.\<close>

datatype Code = Success | Error | Unschedulable

datatype Status = NewStatus Code "string list"

subsection \<open>getControllerInfo\<close>

text \<open>
  The loop over \<^verbatim>\<open>pod.OwnerReferences\<close>: an owner with an empty UID or name is skipped
  (\<^verbatim>\<open>continue\<close>), the first owner of one of the four kinds is returned, an owner of
  another kind falls out of the \<^verbatim>\<open>switch\<close> to the next iteration, and the zero
  \<^verbatim>\<open>ControllerInfo\<close> with \<^verbatim>\<open>false\<close> is returned when the list is exhausted.
\<close>

fun getControllerInfo_loop :: "OwnerReference list \<Rightarrow> ControllerInfo \<times> bool" where
  "getControllerInfo_loop [] = (\<lparr>ci_Type = [], ci_UID = [], ci_Name = []\<rparr>, False)"
| "getControllerInfo_loop (ownerRef # rest) =
     (if or_UID ownerRef = [] \<or> or_Name ownerRef = [] then getControllerInfo_loop rest
      else if or_Kind ownerRef = ReplicaSetType then
        (\<lparr>ci_Type = ReplicaSetType, ci_UID = or_UID ownerRef, ci_Name = or_Name ownerRef\<rparr>, True)
      else if or_Kind ownerRef = StatefulSetType then
        (\<lparr>ci_Type = StatefulSetType, ci_UID = or_UID ownerRef, ci_Name = or_Name ownerRef\<rparr>, True)
      else if or_Kind ownerRef = JobType then
        (\<lparr>ci_Type = JobType, ci_UID = or_UID ownerRef, ci_Name = or_Name ownerRef\<rparr>, True)
      else if or_Kind ownerRef = CronJobType then
        (\<lparr>ci_Type = CronJobType, ci_UID = or_UID ownerRef, ci_Name = or_Name ownerRef\<rparr>, True)
      else getControllerInfo_loop rest)"

definition getControllerInfo :: "Pod \<Rightarrow> ControllerInfo \<times> bool" where
  "getControllerInfo pod = getControllerInfo_loop (pod_OwnerReferences pod)"

subsection \<open>strconv.ParseInt(val, 10, 32)\<close>

text \<open>
  The plugin parses the annotation with the Go standard library's
  \<^verbatim>\<open>strconv.ParseInt(val, 10, 32)\<close>.  The model follows that function and the
  \<^verbatim>\<open>strconv.ParseUint\<close> it calls, at base 10 and bit size 32: the accumulator is a
  \<^verbatim>\<open>uint64\<close> (an \<open>int\<close> with the arithmetic taken modulo \<open>2 ^ 64\<close>), \<^verbatim>\<open>cutoff\<close> is \<^verbatim>\<open>maxUint64/10 + 1\<close>
  and \<^verbatim>\<open>maxVal\<close> is \<open>2 ^ 32 - 1\<close>.  Both return the value together with the error
  (\<open>None\<close> is \<^verbatim>\<open>nil\<close>).
\<close>

datatype NumError = ErrSyntax | ErrRange

text \<open>\<^verbatim>\<open>lower(c) = c | ('x' - 'X')\<close>.\<close>

definition lower :: "int \<Rightarrow> int" where
  "lower c = c OR 32"

text \<open>
  The \<^verbatim>\<open>switch\<close> on a byte in the loop of \<^verbatim>\<open>ParseUint\<close> (the underscore case needs
  base 0): the digit value, or \<open>None\<close> for the default case (a syntax error).
\<close>

definition digitVal :: "char \<Rightarrow> int option" where
  "digitVal c =
     (let b = (of_char c :: int) in
      if 48 \<le> b \<and> b \<le> 57 then Some (b - 48)
      else if 97 \<le> lower b \<and> lower b \<le> 122 then Some (lower b - 97 + 10)
      else None)"

definition maxUint64 :: int where
  "maxUint64 = 2 ^ 64 - 1"

definition maxVal32 :: int where
  "maxVal32 = 2 ^ 32 - 1"

fun ParseUint_loop :: "string \<Rightarrow> int \<Rightarrow> int \<times> NumError option" where
  "ParseUint_loop [] n = (n, None)"
| "ParseUint_loop (c # cs) n =
     (case digitVal c of
        None \<Rightarrow> (0, Some ErrSyntax)
      | Some d \<Rightarrow>
          if d \<ge> 10 then (0, Some ErrSyntax)
          else if n \<ge> maxUint64 div 10 + 1 then (maxVal32, Some ErrRange)
          else
            (let n' = (n * 10) mod 2 ^ 64;
                 n1 = (n' + d) mod 2 ^ 64
             in if n1 < n' \<or> n1 > maxVal32 then (maxVal32, Some ErrRange)
                else ParseUint_loop cs n1))"

definition ParseUint_10_32 :: "string \<Rightarrow> int \<times> NumError option" where
  "ParseUint_10_32 s = (if s = [] then (0, Some ErrSyntax) else ParseUint_loop s 0)"

definition ParseInt_10_32 :: "string \<Rightarrow> int \<times> NumError option" where
  "ParseInt_10_32 s =
     (case s of
        [] \<Rightarrow> (0, Some ErrSyntax)
      | c # cs \<Rightarrow>
          (let neg = (c = CHR ''-'');
               s' = (if c = CHR ''+'' \<or> c = CHR ''-'' then cs else s);
               (un, err) = ParseUint_10_32 s'
           in if err = Some ErrSyntax then (0, err)
              else if \<not> neg \<and> un \<ge> 2 ^ 31 then (2 ^ 31 - 1, Some ErrRange)
              else if neg \<and> un > 2 ^ 31 then (- (2 ^ 31), Some ErrRange)
              else (if neg then - un else un, None)))"

subsection \<open>parseMinHostsAnnotation, min, isOwnedByController\<close>

definition MaxInt32 :: int where
  "MaxInt32 = 2 ^ 31 - 1"

definition parseMinHostsAnnotation :: "string \<Rightarrow> int32" where
  "parseMinHostsAnnotation val =
     (case ParseInt_10_32 val of
        (parsed, err) \<Rightarrow>
          if err = None \<and> parsed \<ge> 2 \<and> parsed \<le> MaxInt32 then word_of_int parsed else 2)"

definition min_int32 :: "int32 \<Rightarrow> int32 \<Rightarrow> int32" where
  "min_int32 a b = (if sint a < sint b then a else b)"

fun isOwnedByController_loop :: "OwnerReference list \<Rightarrow> ControllerInfo \<Rightarrow> bool" where
  "isOwnedByController_loop [] controller = False"
| "isOwnedByController_loop (ownerRef # rest) controller =
     (if or_Kind ownerRef = ci_Type controller \<and> or_UID ownerRef = ci_UID controller then True
      else isOwnedByController_loop rest controller)"

definition isOwnedByController :: "Pod \<Rightarrow> ControllerInfo \<Rightarrow> bool" where
  "isOwnedByController pod controller =
     isOwnedByController_loop (pod_OwnerReferences pod) controller"

subsection \<open>Formatting\<close>

text \<open>The verb \<^verbatim>\<open>%d\<close> of \<^verbatim>\<open>fmt.Sprintf\<close> on an \<^verbatim>\<open>int32\<close>: the decimal digits, after a minus sign for a negative value.\<close>

function decimal :: "nat \<Rightarrow> string" where
  "decimal n = (if n < 10 then [''0123456789'' ! n] else decimal (n div 10) @ [''0123456789'' ! (n mod 10)])"
  by pat_completeness auto
termination
  by (relation "measure (\<lambda>n. n)") auto

declare decimal.simps [simp del]

definition Sprintf_d :: "int32 \<Rightarrow> string" where
  "Sprintf_d i = (if sint i < 0 then CHR ''-'' # decimal (nat (- sint i)) else decimal (nat (sint i)))"

subsection \<open>Filter\<close>

text \<open>
  \<^verbatim>\<open>Filter\<close> returns its \<^verbatim>\<open>*framework.Status\<close>; the model returns with it the list
  of store reads the invocation made.  The calls to \<^verbatim>\<open>klog\<close> only write log lines and
  are left out.  The method is cut at its own blank lines into the pieces below.

  \<open>Filter_lookup\<close> is the \<^verbatim>\<open>switch controller.Type\<close>: \<open>Inl\<close> is a \<^verbatim>\<open>return\<close> from
  inside the switch, \<open>Inr\<close> carries \<^verbatim>\<open>desired\<close> and \<^verbatim>\<open>annotations\<close> on to the rest of
  the method.
\<close>

definition Filter_lookup ::
  "ControllerSpreadFilter \<Rightarrow> Pod \<Rightarrow> ControllerInfo \<Rightarrow> (Status + int32 \<times> Annotations) \<times> store_read list" where
  "Filter_lookup csf pod controller =
     (if ci_Type controller = ReplicaSetType then
        (case rsLister csf (pod_Namespace pod) (ci_Name controller) of
           Inl err \<Rightarrow> (Inl (NewStatus Success []), [GetReplicaSet (pod_Namespace pod) (ci_Name controller)])
         | Inr rs \<Rightarrow>
             (Inr (case rs_Replicas rs of Some r \<Rightarrow> r | None \<Rightarrow> 1, rs_Annotations rs),
              [GetReplicaSet (pod_Namespace pod) (ci_Name controller)]))
      else if ci_Type controller = StatefulSetType then
        (case stsLister csf (pod_Namespace pod) (ci_Name controller) of
           Inl err \<Rightarrow> (Inl (NewStatus Success []), [GetStatefulSet (pod_Namespace pod) (ci_Name controller)])
         | Inr sts \<Rightarrow>
             (Inr (case sts_Replicas sts of Some r \<Rightarrow> r | None \<Rightarrow> 1, sts_Annotations sts),
              [GetStatefulSet (pod_Namespace pod) (ci_Name controller)]))
      else if ci_Type controller = JobType then
        (case jobLister csf (pod_Namespace pod) (ci_Name controller) of
           Inl err \<Rightarrow> (Inl (NewStatus Success []), [GetJob (pod_Namespace pod) (ci_Name controller)])
         | Inr job \<Rightarrow>
             (Inr (case job_Parallelism job of Some r \<Rightarrow> r | None \<Rightarrow> 1, job_Annotations job),
              [GetJob (pod_Namespace pod) (ci_Name controller)]))
      else if ci_Type controller = CronJobType then
        (case cronJobLister csf (pod_Namespace pod) (ci_Name controller) of
           Inl err \<Rightarrow> (Inl (NewStatus Success []), [GetCronJob (pod_Namespace pod) (ci_Name controller)])
         | Inr cj \<Rightarrow>
             (Inr (case cj_Parallelism cj of Some r \<Rightarrow> r | None \<Rightarrow> 1, cj_Annotations cj),
              [GetCronJob (pod_Namespace pod) (ci_Name controller)]))
      else (Inl (NewStatus Success []), []))"

text \<open>
  \<^verbatim>\<open>requiredHosts := min(desired, minHostsVal)\<close>, where \<^verbatim>\<open>minHostsVal\<close> starts at 2 and
  is replaced by the parsed annotation when the key exists.
\<close>

definition Filter_requiredHosts :: "int32 \<Rightarrow> Annotations \<Rightarrow> int32" where
  "Filter_requiredHosts desired annotations =
     (let minHostsVal =
            (case annotations minHostsAnnotationKey of
               Some val \<Rightarrow> parseMinHostsAnnotation val
             | None \<Rightarrow> 2)
      in min_int32 desired minHostsVal)"

text \<open>The loop that appends to \<^verbatim>\<open>controllerPods\<close>.\<close>

fun controllerPods_loop :: "Pod list \<Rightarrow> ControllerInfo \<Rightarrow> Pod list \<Rightarrow> Pod list" where
  "controllerPods_loop [] controller controllerPods = controllerPods"
| "controllerPods_loop (p # ps) controller controllerPods =
     controllerPods_loop ps controller
       (if isOwnedByController p controller \<and> (pod_Phase p = PodRunning \<or> pod_Phase p = PodPending)
        then controllerPods @ [p] else controllerPods)"

text \<open>The loop that fills \<^verbatim>\<open>nodeSet\<close>, a \<^verbatim>\<open>sets.String\<close>.\<close>

fun nodeSet_loop :: "Pod list \<Rightarrow> string set \<Rightarrow> string set" where
  "nodeSet_loop [] nodeSet = nodeSet"
| "nodeSet_loop (p # ps) nodeSet =
     nodeSet_loop ps (if pod_NodeName p \<noteq> [] then insert (pod_NodeName p) nodeSet else nodeSet)"

text \<open>
  From \<^verbatim>\<open>effectiveSpread := nodeSet.Len()\<close> to the end of the method.
  \<^verbatim>\<open>effectiveSpread\<close> is a Go \<^verbatim>\<open>int\<close> that counts map entries, far from its
  bounds, so it is an \<open>int\<close> here; \<^verbatim>\<open>int(requiredHosts)\<close> is \<open>sint\<close>.
\<close>

definition Filter_decision :: "int32 \<Rightarrow> string set \<Rightarrow> NodeInfo \<Rightarrow> Status" where
  "Filter_decision requiredHosts nodeSet nodeInfo =
     (let effectiveSpread = int (card nodeSet);
          effectiveSpread = (if node_Name nodeInfo \<notin> nodeSet then effectiveSpread + 1 else effectiveSpread)
      in if effectiveSpread < sint requiredHosts then
           NewStatus Unschedulable
             [''must schedule across at least '' @ Sprintf_d requiredHosts @ '' distinct nodes'']
         else NewStatus Success [])"

text \<open>The method after the switch.\<close>

definition Filter_census ::
  "ControllerSpreadFilter \<Rightarrow> Pod \<Rightarrow> NodeInfo \<Rightarrow> ControllerInfo \<Rightarrow> int32 \<Rightarrow> Annotations
     \<Rightarrow> Status \<times> store_read list" where
  "Filter_census csf pod nodeInfo controller desired annotations =
     (let requiredHosts = Filter_requiredHosts desired annotations in
      if sint desired \<le> 1 then (NewStatus Success [], [])
      else
        (case podLister csf (pod_Namespace pod) of
           Inl err \<Rightarrow>
             (NewStatus Error [''error listing pods: '' @ Error_text err], [ListPods (pod_Namespace pod)])
         | Inr allPods \<Rightarrow>
             (let controllerPods = controllerPods_loop allPods controller [] in
              if length controllerPods \<le> 1 then (NewStatus Success [], [ListPods (pod_Namespace pod)])
              else
                (let nodeSet = nodeSet_loop controllerPods {} in
                 (Filter_decision requiredHosts nodeSet nodeInfo, [ListPods (pod_Namespace pod)])))))"

definition Filter ::
  "ControllerSpreadFilter \<Rightarrow> Context \<Rightarrow> CycleState \<Rightarrow> Pod \<Rightarrow> NodeInfo \<Rightarrow> Status \<times> store_read list" where
  "Filter csf ctx cycleState pod nodeInfo =
     (case getControllerInfo pod of
        (controller, ok) \<Rightarrow>
          if \<not> ok then (NewStatus Success [], [])
          else
            (case Filter_lookup csf pod controller of
               (Inl status, reads) \<Rightarrow> (status, reads)
             | (Inr (desired, annotations), reads) \<Rightarrow>
                 (case Filter_census csf pod nodeInfo controller desired annotations of
                    (status, reads') \<Rightarrow> (status, reads @ reads'))))"

subsection \<open>Reference notions used to state the properties\<close>

text \<open>
  What "the base-10 parsed value" of an annotation means, independently of the parser
  above and with no bound on the value: an optional sign followed by one or more
  decimal digits, read as an integer.
\<close>

definition spec_isDigit :: "char \<Rightarrow> bool" where
  "spec_isDigit c = (48 \<le> (of_char c :: int) \<and> (of_char c :: int) \<le> 57)"

fun spec_decimalValue :: "string \<Rightarrow> int \<Rightarrow> int" where
  "spec_decimalValue [] acc = acc"
| "spec_decimalValue (c # cs) acc = spec_decimalValue cs (10 * acc + (of_char c - 48))"

definition spec_unsigned :: "string \<Rightarrow> int option" where
  "spec_unsigned ds =
     (if ds \<noteq> [] \<and> list_all spec_isDigit ds then Some (spec_decimalValue ds 0) else None)"

definition spec_parseBase10 :: "string \<Rightarrow> int option" where
  "spec_parseBase10 s =
     (case s of
        [] \<Rightarrow> None
      | c # cs \<Rightarrow>
          if c = CHR ''+'' then spec_unsigned cs
          else if c = CHR ''-'' then map_option uminus (spec_unsigned cs)
          else spec_unsigned s)"

text \<open>
  An owner the resolver may return, in the words of its contract: one of the four
  recognized kinds, with a non-empty identifier and a non-empty name.
\<close>

definition spec_eligibleOwner :: "OwnerReference \<Rightarrow> bool" where
  "spec_eligibleOwner r =
     ((or_Kind r = ''ReplicaSet'' \<or> or_Kind r = ''StatefulSet'' \<or> or_Kind r = ''Job'' \<or> or_Kind r = ''CronJob'')
      \<and> or_UID r \<noteq> [] \<and> or_Name r \<noteq> [])"

text \<open>
  A sibling of a controller reference: some owner reference has the reference's kind
  and identifier, and the phase is Pending or Running.
\<close>

definition spec_sibling :: "ControllerInfo \<Rightarrow> Pod \<Rightarrow> bool" where
  "spec_sibling ref p =
     ((\<exists>r \<in> set (pod_OwnerReferences p). or_Kind r = ci_Type ref \<and> or_UID r = ci_UID ref)
      \<and> (pod_Phase p = ''Pending'' \<or> pod_Phase p = ''Running''))"

text \<open>
  The spread after tentatively placing the pod on the candidate: the size of the
  snapshot, plus one when the candidate is not in it.
\<close>

definition spec_effectiveSpread :: "string set \<Rightarrow> string \<Rightarrow> int" where
  "spec_effectiveSpread placementSnapshot candidateNode =
     int (card placementSnapshot) + (if candidateNode \<in> placementSnapshot then 0 else 1)"

text \<open>
  The lookup that the switch of \<^verbatim>\<open>Filter\<close> performs for the controller's kind returns
  an object whose count field (\<^verbatim>\<open>Replicas\<close> or \<^verbatim>\<open>Parallelism\<close>) is nil.
\<close>

definition countFieldUnset :: "ControllerSpreadFilter \<Rightarrow> Pod \<Rightarrow> ControllerInfo \<Rightarrow> bool" where
  "countFieldUnset csf pod controller =
     (if ci_Type controller = ReplicaSetType then
        (case rsLister csf (pod_Namespace pod) (ci_Name controller) of
           Inl err \<Rightarrow> False | Inr rs \<Rightarrow> rs_Replicas rs = None)
      else if ci_Type controller = StatefulSetType then
        (case stsLister csf (pod_Namespace pod) (ci_Name controller) of
           Inl err \<Rightarrow> False | Inr sts \<Rightarrow> sts_Replicas sts = None)
      else if ci_Type controller = JobType then
        (case jobLister csf (pod_Namespace pod) (ci_Name controller) of
           Inl err \<Rightarrow> False | Inr job \<Rightarrow> job_Parallelism job = None)
      else if ci_Type controller = CronJobType then
        (case cronJobLister csf (pod_Namespace pod) (ci_Name controller) of
           Inl err \<Rightarrow> False | Inr cj \<Rightarrow> cj_Parallelism cj = None)
      else False)"

text \<open>
  The override as the policy resolver's contract words it: 2 when the annotation is
  absent, unparseable or below 2, else the parsed integer, whatever its size.
\<close>

definition spec_override :: "Annotations \<Rightarrow> int" where
  "spec_override annotations =
     (case annotations minHostsAnnotationKey of
        None \<Rightarrow> 2
      | Some val \<Rightarrow>
          (case spec_parseBase10 val of
             None \<Rightarrow> 2
           | Some v \<Rightarrow> if v \<ge> 2 then v else 2))"

subsection \<open>Example inputs\<close>

text \<open>
  A ReplicaSet \<open>web\<close> in namespace \<open>prod\<close>; one of its pods runs on node \<open>n1\<close>, and
  the pod being scheduled is Pending with no node yet.  Both are in the pod listing.
  The ReplicaSet's replica count and annotations are parameters of the store.
\<close>

definition example_owner :: OwnerReference where
  "example_owner = \<lparr>or_Kind = ''ReplicaSet'', or_UID = ''u1'', or_Name = ''web''\<rparr>"

definition example_sibling :: Pod where
  "example_sibling =
     \<lparr>pod_Name = ''web-a'', pod_Namespace = ''prod'', pod_OwnerReferences = [example_owner],
      pod_NodeName = ''n1'', pod_Phase = ''Running''\<rparr>"

definition example_pod :: Pod where
  "example_pod =
     \<lparr>pod_Name = ''web-b'', pod_Namespace = ''prod'', pod_OwnerReferences = [example_owner],
      pod_NodeName = [], pod_Phase = ''Pending''\<rparr>"

definition example_controller :: ControllerInfo where
  "example_controller = \<lparr>ci_Type = ''ReplicaSet'', ci_UID = ''u1'', ci_Name = ''web''\<rparr>"

definition example_store :: "int32 option \<Rightarrow> Annotations \<Rightarrow> ControllerSpreadFilter" where
  "example_store replicas annotations =
     \<lparr>podLister = (\<lambda>ns. Inr [example_sibling, example_pod]),
      rsLister = (\<lambda>ns name. Inr \<lparr>rs_Replicas = replicas, rs_Annotations = annotations\<rparr>),
      stsLister = (\<lambda>ns name. Inl (NotFound ''not found'')),
      jobLister = (\<lambda>ns name. Inl (NotFound ''not found'')),
      cronJobLister = (\<lambda>ns name. Inl (NotFound ''not found''))\<rparr>"

text \<open>The same store with a ReplicaSet lookup that fails, and with a pod listing that fails.\<close>

definition example_store_lookup_fails :: ControllerSpreadFilter where
  "example_store_lookup_fails =
     (example_store (Some 3) Map.empty)
       \<lparr>rsLister := (\<lambda>ns name. Inl (NotFound ''replicaset web not found''))\<rparr>"

definition example_store_list_fails :: ControllerSpreadFilter where
  "example_store_list_fails =
     (example_store (Some 3) Map.empty)
       \<lparr>podLister := (\<lambda>ns. Inl (StoreError ''pod cache unavailable''))\<rparr>"

text \<open>
  The pod with four owners (an unrecognized kind, a ReplicaSet with an empty UID, a
  StatefulSet, the ReplicaSet), and with an owner of an unrecognized kind only.
\<close>

definition example_pod_mixed_owners :: Pod where
  "example_pod_mixed_owners =
     example_pod
       \<lparr>pod_OwnerReferences :=
          [\<lparr>or_Kind = ''DaemonSet'', or_UID = ''u7'', or_Name = ''agent''\<rparr>,
           \<lparr>or_Kind = ''ReplicaSet'', or_UID = [], or_Name = ''web''\<rparr>,
           \<lparr>or_Kind = ''StatefulSet'', or_UID = ''u2'', or_Name = ''db''\<rparr>,
           example_owner]\<rparr>"

definition example_pod_foreign_owner :: Pod where
  "example_pod_foreign_owner =
     example_pod
       \<lparr>pod_OwnerReferences := [\<lparr>or_Kind = ''DaemonSet'', or_UID = ''u7'', or_Name = ''agent''\<rparr>]\<rparr>"

text \<open>
  Two more pods of the ReplicaSet: one that has Succeeded on \<open>n3\<close>, and one that runs on
  \<open>n2\<close> and whose owner reference carries an older name of the same ReplicaSet.
\<close>

definition example_finished :: Pod where
  "example_finished =
     \<lparr>pod_Name = ''web-c'', pod_Namespace = ''prod'', pod_OwnerReferences = [example_owner],
      pod_NodeName = ''n3'', pod_Phase = ''Succeeded''\<rparr>"

definition example_renamed :: Pod where
  "example_renamed =
     \<lparr>pod_Name = ''web-d'', pod_Namespace = ''prod'',
      pod_OwnerReferences = [\<lparr>or_Kind = ''ReplicaSet'', or_UID = ''u1'', or_Name = ''web-old''\<rparr>],
      pod_NodeName = ''n2'', pod_Phase = ''Running''\<rparr>"

definition example_listing :: "Pod list" where
  "example_listing = [example_sibling, example_pod, example_finished, example_renamed]"

text \<open>A store whose pod listing holds the running sibling only.\<close>

definition example_store_single :: ControllerSpreadFilter where
  "example_store_single =
     (example_store (Some 3) Map.empty) \<lparr>podLister := (\<lambda>ns. Inr [example_sibling])\<rparr>"

section \<open>Properties\<close>

subsection \<open>The annotation parser\<close>

lemma digitVal_digit: "spec_isDigit c \<Longrightarrow> digitVal c = Some (of_char c - 48)"
  by (simp add: digitVal_def spec_isDigit_def)

lemma digitVal_nondigit: "\<not> spec_isDigit c \<Longrightarrow> digitVal c = None \<or> (\<exists>d. digitVal c = Some d \<and> d \<ge> 10)"
  by (auto simp add: digitVal_def spec_isDigit_def Let_def)

lemma spec_decimalValue_ge: "list_all spec_isDigit cs \<Longrightarrow> 0 \<le> acc \<Longrightarrow> acc \<le> spec_decimalValue cs acc"
proof (induction cs arbitrary: acc)
  case Nil
  then show ?case by simp
next
  case (Cons c cs)
  have d: "0 \<le> (of_char c :: int) - 48" using Cons.prems by (simp add: spec_isDigit_def)
  have "10 * acc + (of_char c - 48) \<le> spec_decimalValue cs (10 * acc + (of_char c - 48))"
    using Cons.prems d by (intro Cons.IH) auto
  then show ?case using Cons.prems d by simp
qed

lemma ParseUint_loop_None:
  "0 \<le> n \<Longrightarrow> n \<le> maxVal32 \<Longrightarrow>
   ParseUint_loop cs n = (v, None) \<longleftrightarrow>
     list_all spec_isDigit cs \<and> spec_decimalValue cs n \<le> maxVal32 \<and> v = spec_decimalValue cs n"
proof (induction cs arbitrary: n)
  case Nil
  then show ?case by auto
next
  case (Cons c cs)
  show ?case
  proof (cases "spec_isDigit c")
    case False
    then show ?thesis using digitVal_nondigit [OF False] by auto
  next
    case True
    define d where "d = (of_char c :: int) - 48"
    have dv: "digitVal c = Some d" using True by (simp add: digitVal_digit d_def)
    have d: "0 \<le> d" "d < 10" using True by (simp_all add: spec_isDigit_def d_def)
    have n: "0 \<le> n" "n \<le> 4294967295" using Cons.prems by (simp_all add: maxVal32_def)
    have m1: "(n * 10) mod 2 ^ 64 = n * 10" using n by simp
    have m2: "(n * 10 + d) mod 2 ^ 64 = n * 10 + d" using n d by simp
    show ?thesis
    proof (cases "n * 10 + d \<le> maxVal32")
      case le: True
      have "0 \<le> n * 10 + d" using n d by simp
      from Cons.IH [OF this le] show ?thesis
        using dv d n m1 m2 le True by (simp add: maxUint64_def d_def mult.commute)
    next
      case gt: False
      have "n * 10 + d \<le> spec_decimalValue cs (n * 10 + d)" if "list_all spec_isDigit cs"
        using that n d by (intro spec_decimalValue_ge) auto
      then show ?thesis
        using dv d n m1 m2 gt True by (auto simp add: maxUint64_def d_def mult.commute)
    qed
  qed
qed

lemma ParseUint_loop_Range:
  "ParseUint_loop cs n = (v, Some ErrRange) \<Longrightarrow> v = maxVal32"
  by (induction cs arbitrary: n) (auto simp add: Let_def split: option.splits if_splits)

lemma ParseUint_10_32_cases:
  "(\<exists>v. ParseUint_10_32 s = (v, None) \<and> spec_unsigned s = Some v \<and> 0 \<le> v \<and> v \<le> maxVal32)
   \<or> (ParseUint_10_32 s = (maxVal32, Some ErrRange) \<and> (\<forall>v. spec_unsigned s = Some v \<longrightarrow> maxVal32 < v))
   \<or> (\<exists>u. ParseUint_10_32 s = (u, Some ErrSyntax) \<and> (\<forall>v. spec_unsigned s = Some v \<longrightarrow> maxVal32 < v))"
proof (cases "s = []")
  case True
  then show ?thesis by (simp add: ParseUint_10_32_def spec_unsigned_def)
next
  case ne: False
  obtain u e where r: "ParseUint_loop s 0 = (u, e)" by (cases "ParseUint_loop s 0")
  have z: "(0::int) \<le> 0" "(0::int) \<le> maxVal32" by (simp_all add: maxVal32_def)
  note iff = ParseUint_loop_None [OF z, of s]
  show ?thesis
  proof (cases e)
    case None
    with r iff [of u] have a: "list_all spec_isDigit s" "spec_decimalValue s 0 \<le> maxVal32" "u = spec_decimalValue s 0"
      by simp_all
    have "0 \<le> spec_decimalValue s 0" using spec_decimalValue_ge [OF a(1), of 0] by simp
    then show ?thesis using r None ne a by (simp add: ParseUint_10_32_def spec_unsigned_def)
  next
    case (Some x)
    have no: "\<not> (list_all spec_isDigit s \<and> spec_decimalValue s 0 \<le> maxVal32)"
      using iff [of "spec_decimalValue s 0"] r Some by auto
    show ?thesis
    proof (cases x)
      case ErrSyntax
      then show ?thesis using r Some ne no by (auto simp add: ParseUint_10_32_def spec_unsigned_def)
    next
      case ErrRange
      then have "u = maxVal32" using r Some ParseUint_loop_Range by blast
      then show ?thesis using r Some ErrRange ne no by (auto simp add: ParseUint_10_32_def spec_unsigned_def)
    qed
  qed
qed

lemma ParseInt_10_32_spec:
  "ParseInt_10_32 s = (p, e) \<Longrightarrow>
   (e = None \<longrightarrow> spec_parseBase10 s = Some p \<and> - (2 ^ 31) \<le> p \<and> p \<le> 2 ^ 31 - 1) \<and>
   (e \<noteq> None \<longrightarrow> (\<forall>v. spec_parseBase10 s = Some v \<longrightarrow> v < - (2 ^ 31) \<or> 2 ^ 31 - 1 < v))"
proof (cases s)
  case Nil
  assume "ParseInt_10_32 s = (p, e)"
  then show ?thesis using Nil by (auto simp add: ParseInt_10_32_def spec_parseBase10_def)
next
  case (Cons c cs)
  assume r: "ParseInt_10_32 s = (p, e)"
  define s' where "s' = (if c = CHR ''+'' \<or> c = CHR ''-'' then cs else s)"
  have sp: "spec_parseBase10 s = (if c = CHR ''-'' then map_option uminus (spec_unsigned s') else spec_unsigned s')"
    using Cons by (auto simp add: spec_parseBase10_def s'_def)
  have pi: "ParseInt_10_32 s =
    (case ParseUint_10_32 s' of (un, err) \<Rightarrow>
       if err = Some ErrSyntax then (0, err)
       else if c \<noteq> CHR ''-'' \<and> un \<ge> 2 ^ 31 then (2 ^ 31 - 1, Some ErrRange)
       else if c = CHR ''-'' \<and> un > 2 ^ 31 then (- (2 ^ 31), Some ErrRange)
       else (if c = CHR ''-'' then - un else un, None))"
    using Cons by (simp add: ParseInt_10_32_def s'_def Let_def)
  from ParseUint_10_32_cases [of s'] show ?thesis
    using r unfolding pi sp by (auto simp add: maxVal32_def split: if_splits)
qed

lemma sint_parseMinHostsAnnotation:
  "sint (parseMinHostsAnnotation val) =
     (case spec_parseBase10 val of
        None \<Rightarrow> 2
      | Some v \<Rightarrow> if 2 \<le> v \<and> v \<le> 2147483647 then v else 2)"
proof -
  obtain p e where r: "ParseInt_10_32 val = (p, e)" by (cases "ParseInt_10_32 val")
  note sp = ParseInt_10_32_spec [OF r]
  show ?thesis
  proof (cases e)
    case None
    then have a: "spec_parseBase10 val = Some p" "p \<le> 2147483647" using sp by simp_all
    have "sint (word_of_int p :: 32 word) = p" if "2 \<le> p"
      using that a(2) by (simp add: sint_sbintrunc' signed_take_bit_int_eq_self)
    then show ?thesis using r None a by (simp add: parseMinHostsAnnotation_def MaxInt32_def)
  next
    case (Some x)
    then have "\<forall>v. spec_parseBase10 val = Some v \<longrightarrow> v < - (2 ^ 31) \<or> 2 ^ 31 - 1 < v" using sp by simp
    then show ?thesis using r Some by (auto simp add: parseMinHostsAnnotation_def split: option.splits)
  qed
qed

lemmas ControllerType_defs = ReplicaSetType_def StatefulSetType_def JobType_def CronJobType_def

subsection \<open>The resolver and the census loops\<close>

lemma getControllerInfo_loop_find:
  "getControllerInfo_loop rs =
     (case find spec_eligibleOwner rs of
        None \<Rightarrow> (\<lparr>ci_Type = [], ci_UID = [], ci_Name = []\<rparr>, False)
      | Some r \<Rightarrow> (\<lparr>ci_Type = or_Kind r, ci_UID = or_UID r, ci_Name = or_Name r\<rparr>, True))"
  by (induction rs) (auto simp add: spec_eligibleOwner_def ControllerType_defs)

lemma isOwnedByController_loop_iff:
  "isOwnedByController_loop rs c \<longleftrightarrow> (\<exists>r \<in> set rs. or_Kind r = ci_Type c \<and> or_UID r = ci_UID c)"
  by (induction rs) auto

lemma getControllerInfo_owned:
  assumes "getControllerInfo pod = (controller, True)"
  shows "isOwnedByController pod controller"
proof -
  obtain r where f: "find spec_eligibleOwner (pod_OwnerReferences pod) = Some r"
    and c: "controller = \<lparr>ci_Type = or_Kind r, ci_UID = or_UID r, ci_Name = or_Name r\<rparr>"
    using assms unfolding getControllerInfo_def getControllerInfo_loop_find
    by (auto split: option.splits)
  from f have "r \<in> set (pod_OwnerReferences pod)"
    by (auto simp add: find_Some_iff)
  then show ?thesis
    unfolding isOwnedByController_def isOwnedByController_loop_iff using c by auto
qed

lemma sibling_iff:
  "isOwnedByController p c \<and> (pod_Phase p = PodRunning \<or> pod_Phase p = PodPending) \<longleftrightarrow> spec_sibling c p"
  by (auto simp add: isOwnedByController_def isOwnedByController_loop_iff spec_sibling_def
      PodRunning_def PodPending_def)

lemma controllerPods_loop_filter:
  "controllerPods_loop ps c acc = acc @ filter (spec_sibling c) ps"
proof (induction ps arbitrary: acc)
  case Nil
  then show ?case by simp
next
  case (Cons p ps)
  show ?case
    using sibling_iff [of p c] by (simp add: Cons.IH)
qed

lemma nodeSet_loop_set:
  "nodeSet_loop ps S = S \<union> set (filter (\<lambda>nodeName. nodeName \<noteq> []) (map pod_NodeName ps))"
  by (induction ps arbitrary: S) auto

subsection \<open>The pieces of Filter\<close>

lemma Filter_lookup_no_list:
  "Filter_lookup csf pod controller = (x, reads) \<Longrightarrow> ListPods ns \<notin> set reads"
  by (auto simp add: Filter_lookup_def split: if_splits sum.splits)

lemma Filter_lookup_unset:
  "countFieldUnset csf pod controller \<Longrightarrow> Filter_lookup csf pod controller = (Inr (desired, annotations), reads)
    \<Longrightarrow> desired = 1"
  by (auto simp add: Filter_lookup_def countFieldUnset_def split: if_splits sum.splits)

lemma Filter_after_lookup:
  assumes "getControllerInfo pod = (controller, True)"
      and "Filter_lookup csf pod controller = (Inr (desired, annotations), reads)"
  shows "Filter csf ctx cycleState pod nodeInfo =
           (fst (Filter_census csf pod nodeInfo controller desired annotations),
            reads @ snd (Filter_census csf pod nodeInfo controller desired annotations))"
  using assms by (simp add: Filter_def split: prod.splits)

lemma Filter_census_listed:
  assumes "\<not> sint desired \<le> 1"
      and "podLister csf (pod_Namespace pod) = Inr allPods"
  shows "Filter_census csf pod nodeInfo controller desired annotations =
           (if length (filter (spec_sibling controller) allPods) \<le> 1 then NewStatus Success []
            else Filter_decision (Filter_requiredHosts desired annotations)
                   (set (filter (\<lambda>nodeName. nodeName \<noteq> [])
                           (map pod_NodeName (filter (spec_sibling controller) allPods))))
                   nodeInfo,
            [ListPods (pod_Namespace pod)])"
  using assms by (simp add: Filter_census_def controllerPods_loop_filter nodeSet_loop_set Let_def)

subsection \<open>Facts about the example inputs\<close>

lemmas example_defs = example_owner_def example_sibling_def example_pod_def example_controller_def
  example_store_def

lemma example_resolved: "getControllerInfo example_pod = (example_controller, True)"
  by (simp add: getControllerInfo_def example_defs ControllerType_defs)

lemma example_lookup:
  "Filter_lookup (example_store replicas annotations) example_pod example_controller =
     (Inr (case replicas of Some r \<Rightarrow> r | None \<Rightarrow> 1, annotations), [GetReplicaSet ''prod'' ''web''])"
  by (simp add: Filter_lookup_def example_defs ControllerType_defs)

lemma example_siblings:
  "spec_sibling example_controller example_sibling" "spec_sibling example_controller example_pod"
  by (simp_all add: spec_sibling_def example_defs)

section \<open>The claims\<close>

subsection \<open>C1: the admission decision\<close>

text \<open>
  C1.  For every placement snapshot, every \<^verbatim>\<open>requiredHosts\<close> and every candidate node,
  the decision at the end of \<^verbatim>\<open>Filter\<close> compares the effective spread (the size of the
  snapshot, plus one exactly when the candidate node is not in it, so a candidate that
  already hosts a sibling is not counted twice) with \<^verbatim>\<open>requiredHosts\<close>: it rejects, with
  \<^verbatim>\<open>requiredHosts\<close> printed in the reason, exactly when the effective spread is smaller,
  and admits otherwise.
\<close>

theorem Filter_decision_effectiveSpread:
  "Filter_decision requiredHosts placementSnapshot nodeInfo =
     (if spec_effectiveSpread placementSnapshot (node_Name nodeInfo) < sint requiredHosts
      then NewStatus Unschedulable
             [''must schedule across at least '' @ Sprintf_d requiredHosts @ '' distinct nodes'']
      else NewStatus Success [])"
  by (simp add: Filter_decision_def spec_effectiveSpread_def Let_def)

text \<open>Required 2, a sibling on \<open>n1\<close>: the candidate \<open>n1\<close> is rejected, \<open>n2\<close> is admitted.\<close>

theorem Filter_decision_effectiveSpread_witness:
  "Filter_decision 2 {''n1''} \<lparr>node_Name = ''n1''\<rparr> =
     NewStatus Unschedulable [''must schedule across at least 2 distinct nodes'']
   \<and> Filter_decision 2 {''n1''} \<lparr>node_Name = ''n2''\<rparr> = NewStatus Success []"
  using Filter_decision_effectiveSpread [of 2 "{''n1''}" "\<lparr>node_Name = ''n1''\<rparr>"]
    Filter_decision_effectiveSpread [of 2 "{''n1''}" "\<lparr>node_Name = ''n2''\<rparr>"]
  by (simp add: spec_effectiveSpread_def Sprintf_d_def decimal.simps)

subsection \<open>C2: the required host count\<close>

lemma sint_min_int32: "sint (min_int32 a b) = min (sint a) (sint b)"
  by (simp add: min_int32_def min_def)

text \<open>
  C2, amended.  \<^verbatim>\<open>requiredHosts\<close> is the minimum of the desired count and the override,
  where the override is the base-10 value of the annotation when it parses and lies
  between 2 and 2147483647, and 2 otherwise (annotation absent, unparseable, below 2, or
  above the largest \<^verbatim>\<open>int32\<close>).
\<close>

theorem requiredHosts_min_override:
  "sint (Filter_requiredHosts desired annotations) =
     min (sint desired)
       (if spec_override annotations \<le> 2147483647 then spec_override annotations else 2)"
  by (simp add: Filter_requiredHosts_def sint_min_int32 sint_parseMinHostsAnnotation
      spec_override_def split: option.splits)

theorem requiredHosts_min_override_witness:
  "sint (Filter_requiredHosts 5 [minHostsAnnotationKey \<mapsto> ''3'']) = 3
   \<and> sint (Filter_requiredHosts 2 [minHostsAnnotationKey \<mapsto> ''3'']) = 2
   \<and> sint (Filter_requiredHosts 4 [minHostsAnnotationKey \<mapsto> ''1'']) = 2
   \<and> sint (Filter_requiredHosts 4 [minHostsAnnotationKey \<mapsto> ''three'']) = 2
   \<and> sint (Filter_requiredHosts 4 Map.empty) = 2"
  using requiredHosts_min_override [of 5 "[minHostsAnnotationKey \<mapsto> ''3'']"]
    requiredHosts_min_override [of 2 "[minHostsAnnotationKey \<mapsto> ''3'']"]
    requiredHosts_min_override [of 4 "[minHostsAnnotationKey \<mapsto> ''1'']"]
    requiredHosts_min_override [of 4 "[minHostsAnnotationKey \<mapsto> ''three'']"]
    requiredHosts_min_override [of 4 Map.empty]
  by (simp add: spec_override_def spec_parseBase10_def spec_unsigned_def spec_isDigit_def)

text \<open>
  With no upper bound the statement fails: for a desired count of 3 and the annotation
  \<open>2147483648\<close> the code requires 2 hosts, and the minimum with the parsed value is 3.
\<close>

theorem requiredHosts_override_unbounded_counterexample:
  "sint (Filter_requiredHosts 3 [minHostsAnnotationKey \<mapsto> ''2147483648'']) = 2
   \<and> min (sint (3 :: int32)) (spec_override [minHostsAnnotationKey \<mapsto> ''2147483648'']) = 3"
  by (simp add: Filter_requiredHosts_def sint_min_int32 sint_parseMinHostsAnnotation
      spec_override_def spec_parseBase10_def spec_unsigned_def spec_isDigit_def)

subsection \<open>C3: a desired count of at most one\<close>

text \<open>
  C3.  When the pod's controller is resolved and its lookup succeeds with a desired
  count of at most 1 (in particular when the count field is unset, which makes the
  count 1), \<^verbatim>\<open>Filter\<close> admits, whatever the annotations and whatever the pod store holds,
  and the reads it made are those of the controller lookup: the pods are never listed.
\<close>

theorem desired_at_most_one_admits:
  assumes "getControllerInfo pod = (controller, True)"
      and "Filter_lookup csf pod controller = (Inr (desired, annotations), reads)"
      and "sint desired \<le> 1 \<or> countFieldUnset csf pod controller"
  shows "Filter csf ctx cycleState pod nodeInfo = (NewStatus Success [], reads)
         \<and> ListPods ns \<notin> set (snd (Filter csf ctx cycleState pod nodeInfo))"
proof -
  have "desired = 1" if "countFieldUnset csf pod controller"
    using Filter_lookup_unset [OF that assms(2)] .
  then have le: "sint desired \<le> 1" using assms(3) by auto
  have "Filter_census csf pod nodeInfo controller desired annotations = (NewStatus Success [], [])"
    using le by (simp add: Filter_census_def)
  then have eq: "Filter csf ctx cycleState pod nodeInfo = (NewStatus Success [], reads)"
    using Filter_after_lookup [OF assms(1,2)] by simp
  show ?thesis using eq Filter_lookup_no_list [OF assms(2)] by simp
qed

theorem desired_at_most_one_admits_witness:
  "Filter (example_store None [minHostsAnnotationKey \<mapsto> ''5'']) Live CycleState example_pod
       \<lparr>node_Name = ''n1''\<rparr> = (NewStatus Success [], [GetReplicaSet ''prod'' ''web''])
   \<and> Filter (example_store (Some 1) Map.empty) Live CycleState example_pod
       \<lparr>node_Name = ''n1''\<rparr> = (NewStatus Success [], [GetReplicaSet ''prod'' ''web''])
   \<and> ListPods ''prod'' \<notin> set (snd (Filter (example_store (Some 1) Map.empty) Live CycleState example_pod
       \<lparr>node_Name = ''n1''\<rparr>))"
proof -
  have u: "sint (1 :: int32) \<le> 1
      \<or> countFieldUnset (example_store None [minHostsAnnotationKey \<mapsto> ''5'']) example_pod example_controller"
    by (simp add: countFieldUnset_def example_defs ControllerType_defs)
  have v: "sint (1 :: int32) \<le> 1
      \<or> countFieldUnset (example_store (Some 1) Map.empty) example_pod example_controller"
    by simp
  have l1: "Filter_lookup (example_store None [minHostsAnnotationKey \<mapsto> ''5'']) example_pod example_controller
      = (Inr (1, [minHostsAnnotationKey \<mapsto> ''5'']), [GetReplicaSet ''prod'' ''web''])"
    using example_lookup [of None] by simp
  have l2: "Filter_lookup (example_store (Some 1) Map.empty) example_pod example_controller
      = (Inr (1, Map.empty), [GetReplicaSet ''prod'' ''web''])"
    using example_lookup [of "Some 1"] by simp
  show ?thesis
    using desired_at_most_one_admits [OF example_resolved l1 u, of Live CycleState "\<lparr>node_Name = ''n1''\<rparr>" "''prod''"]
      desired_at_most_one_admits [OF example_resolved l2 v, of Live CycleState "\<lparr>node_Name = ''n1''\<rparr>" "''prod''"]
    by simp
qed

subsection \<open>C4: a failed controller lookup\<close>

text \<open>
  C4.  When the pod's controller is resolved and the lookup of the controller object in
  the store of its kind, by the pod's namespace and the controller's name, returns an
  error (not found or any other), \<^verbatim>\<open>Filter\<close> admits.
\<close>

theorem lookup_failure_admits:
  assumes "getControllerInfo pod = (controller, True)"
      and "(ci_Type controller = ReplicaSetType
              \<and> rsLister csf (pod_Namespace pod) (ci_Name controller) = Inl err)
           \<or> (ci_Type controller = StatefulSetType
              \<and> stsLister csf (pod_Namespace pod) (ci_Name controller) = Inl err)
           \<or> (ci_Type controller = JobType
              \<and> jobLister csf (pod_Namespace pod) (ci_Name controller) = Inl err)
           \<or> (ci_Type controller = CronJobType
              \<and> cronJobLister csf (pod_Namespace pod) (ci_Name controller) = Inl err)"
  shows "fst (Filter csf ctx cycleState pod nodeInfo) = NewStatus Success []"
proof -
  have "fst (Filter_lookup csf pod controller) = Inl (NewStatus Success [])"
    using assms(2) by (auto simp add: Filter_lookup_def ControllerType_defs)
  then obtain reads where "Filter_lookup csf pod controller = (Inl (NewStatus Success []), reads)"
    by (cases "Filter_lookup csf pod controller") simp
  then show ?thesis
    using assms(1) by (simp add: Filter_def)
qed

theorem lookup_failure_admits_witness:
  "fst (Filter example_store_lookup_fails Live CycleState example_pod \<lparr>node_Name = ''n1''\<rparr>)
     = NewStatus Success []"
proof -
  have h: "(ci_Type example_controller = ReplicaSetType
              \<and> rsLister example_store_lookup_fails (pod_Namespace example_pod) (ci_Name example_controller)
                  = Inl (NotFound ''replicaset web not found''))
           \<or> (ci_Type example_controller = StatefulSetType
              \<and> stsLister example_store_lookup_fails (pod_Namespace example_pod) (ci_Name example_controller)
                  = Inl (NotFound ''replicaset web not found''))
           \<or> (ci_Type example_controller = JobType
              \<and> jobLister example_store_lookup_fails (pod_Namespace example_pod) (ci_Name example_controller)
                  = Inl (NotFound ''replicaset web not found''))
           \<or> (ci_Type example_controller = CronJobType
              \<and> cronJobLister example_store_lookup_fails (pod_Namespace example_pod) (ci_Name example_controller)
                  = Inl (NotFound ''replicaset web not found''))"
    by (simp add: example_store_lookup_fails_def example_defs ControllerType_defs)
  show ?thesis
    using lookup_failure_admits [OF example_resolved h] .
qed

subsection \<open>C5: a failed pod listing\<close>

lemma example_lookup_list_fails:
  "Filter_lookup example_store_list_fails example_pod example_controller =
     (Inr (3, Map.empty), [GetReplicaSet ''prod'' ''web''])"
  by (simp add: Filter_lookup_def example_store_list_fails_def example_defs ControllerType_defs)

text \<open>
  C5.  When the controller is resolved, its lookup succeeds and the desired count is at
  least 2, a failure to list the namespace's pods makes \<^verbatim>\<open>Filter\<close> return the Error
  status, whose reason carries the text of the listing error.
\<close>

theorem pod_list_failure_is_Error:
  assumes "getControllerInfo pod = (controller, True)"
      and "Filter_lookup csf pod controller = (Inr (desired, annotations), reads)"
      and "2 \<le> sint desired"
      and "podLister csf (pod_Namespace pod) = Inl err"
  shows "Filter csf ctx cycleState pod nodeInfo =
           (NewStatus Error [''error listing pods: '' @ Error_text err],
            reads @ [ListPods (pod_Namespace pod)])"
proof -
  have "Filter_census csf pod nodeInfo controller desired annotations =
          (NewStatus Error [''error listing pods: '' @ Error_text err], [ListPods (pod_Namespace pod)])"
    using assms(3,4) by (simp add: Filter_census_def)
  then show ?thesis
    using Filter_after_lookup [OF assms(1,2)] by simp
qed

theorem pod_list_failure_is_Error_witness:
  "Filter example_store_list_fails Live CycleState example_pod \<lparr>node_Name = ''n2''\<rparr> =
     (NewStatus Error [''error listing pods: pod cache unavailable''],
      [GetReplicaSet ''prod'' ''web'', ListPods ''prod''])"
proof -
  have d: "2 \<le> sint (3 :: int32)" by simp
  have e: "podLister example_store_list_fails (pod_Namespace example_pod)
             = Inl (StoreError ''pod cache unavailable'')"
    by (simp add: example_store_list_fails_def example_defs)
  show ?thesis
    using pod_list_failure_is_Error [OF example_resolved example_lookup_list_fails d e,
        of Live CycleState "\<lparr>node_Name = ''n2''\<rparr>"]
    by (simp add: example_defs)
qed

subsection \<open>C6: the placement census\<close>

text \<open>
  C6.  For every pod listing and controller reference, the pods collected in
  \<^verbatim>\<open>controllerPods\<close> are, in order, the listed pods with an owner reference of the
  reference's kind and UID and with phase Pending or Running; the name in the reference
  plays no part.  The node set is the set of the non-empty node names among them: a
  sibling with no node is counted in \<^verbatim>\<open>controllerPods\<close> and adds nothing to the set,
  which never holds the empty name.
\<close>

theorem census_siblings_and_snapshot:
  "controllerPods_loop allPods ref [] = filter (spec_sibling ref) allPods
   \<and> nodeSet_loop (controllerPods_loop allPods ref []) {} =
       set (filter (\<lambda>nodeName. nodeName \<noteq> []) (map pod_NodeName (filter (spec_sibling ref) allPods)))
   \<and> [] \<notin> nodeSet_loop (controllerPods_loop allPods ref []) {}
   \<and> controllerPods_loop allPods (ref\<lparr>ci_Name := name\<rparr>) [] = controllerPods_loop allPods ref []"
proof -
  have a: "controllerPods_loop allPods ref [] = filter (spec_sibling ref) allPods"
    by (simp add: controllerPods_loop_filter)
  have b: "nodeSet_loop (controllerPods_loop allPods ref []) {} =
       set (filter (\<lambda>nodeName. nodeName \<noteq> []) (map pod_NodeName (filter (spec_sibling ref) allPods)))"
    unfolding a nodeSet_loop_set by simp
  have c: "[] \<notin> nodeSet_loop (controllerPods_loop allPods ref []) {}"
    unfolding b by auto
  have "spec_sibling (ref\<lparr>ci_Name := name\<rparr>) = spec_sibling ref"
    by (rule ext) (simp add: spec_sibling_def)
  then have d: "controllerPods_loop allPods (ref\<lparr>ci_Name := name\<rparr>) [] = controllerPods_loop allPods ref []"
    by (simp add: controllerPods_loop_filter)
  show ?thesis using a b c d by blast
qed

lemma example_listing_siblings:
  "filter (spec_sibling example_controller) example_listing =
     [example_sibling, example_pod, example_renamed]"
  using example_siblings
  by (simp add: example_listing_def)
    (simp add: spec_sibling_def example_renamed_def example_finished_def example_controller_def
      example_owner_def)

theorem census_siblings_and_snapshot_witness:
  "controllerPods_loop example_listing example_controller [] =
     [example_sibling, example_pod, example_renamed]
   \<and> nodeSet_loop (controllerPods_loop example_listing example_controller []) {} = {''n1'', ''n2''}"
proof -
  note census = census_siblings_and_snapshot [of example_listing example_controller "''web''"]
  have a: "controllerPods_loop example_listing example_controller [] =
             [example_sibling, example_pod, example_renamed]"
    using census [THEN conjunct1] unfolding example_listing_siblings .
  have "nodeSet_loop (controllerPods_loop example_listing example_controller []) {} =
          set (filter (\<lambda>nodeName. nodeName \<noteq> [])
                 (map pod_NodeName [example_sibling, example_pod, example_renamed]))"
    using census [THEN conjunct2, THEN conjunct1] unfolding example_listing_siblings .
  then have b: "nodeSet_loop (controllerPods_loop example_listing example_controller []) {} =
                  {''n1'', ''n2''}"
    by (simp add: example_defs example_renamed_def)
  show ?thesis using a b by (rule conjI)
qed

subsection \<open>C7: the controller resolver\<close>

text \<open>
  C7.  \<^verbatim>\<open>getControllerInfo\<close> returns the first owner reference, in list order, whose
  kind is ReplicaSet, StatefulSet, Job or CronJob and whose UID and name are non-empty;
  other owners are passed over.  When there is none it returns \<^verbatim>\<open>false\<close>, and
  \<^verbatim>\<open>Filter\<close> admits without reading any store.
\<close>

theorem getControllerInfo_first_eligible:
  "getControllerInfo pod =
     (case find spec_eligibleOwner (pod_OwnerReferences pod) of
        None \<Rightarrow> (\<lparr>ci_Type = [], ci_UID = [], ci_Name = []\<rparr>, False)
      | Some r \<Rightarrow> (\<lparr>ci_Type = or_Kind r, ci_UID = or_UID r, ci_Name = or_Name r\<rparr>, True))
   \<and> (find spec_eligibleOwner (pod_OwnerReferences pod) = None \<longrightarrow>
        Filter csf ctx cycleState pod nodeInfo = (NewStatus Success [], []))"
  by (simp add: getControllerInfo_def getControllerInfo_loop_find Filter_def)

theorem getControllerInfo_first_eligible_witness:
  "getControllerInfo example_pod_mixed_owners =
     (\<lparr>ci_Type = ''StatefulSet'', ci_UID = ''u2'', ci_Name = ''db''\<rparr>, True)
   \<and> Filter (example_store (Some 3) Map.empty) Live CycleState example_pod_foreign_owner
       \<lparr>node_Name = ''n1''\<rparr> = (NewStatus Success [], [])"
proof -
  have m: "find spec_eligibleOwner (pod_OwnerReferences example_pod_mixed_owners) =
             Some \<lparr>or_Kind = ''StatefulSet'', or_UID = ''u2'', or_Name = ''db''\<rparr>"
    by (simp add: example_pod_mixed_owners_def example_defs spec_eligibleOwner_def)
  have f: "find spec_eligibleOwner (pod_OwnerReferences example_pod_foreign_owner) = None"
    by (simp add: example_pod_foreign_owner_def example_defs spec_eligibleOwner_def)
  show ?thesis
    using getControllerInfo_first_eligible [of example_pod_mixed_owners]
      getControllerInfo_first_eligible [of example_pod_foreign_owner "example_store (Some 3) Map.empty"
        Live CycleState "\<lparr>node_Name = ''n1''\<rparr>"] m f
    by simp
qed

subsection \<open>C8: at most one sibling\<close>

lemma Filter_lookup_Inl:
  "Filter_lookup csf pod controller = (Inl status, reads) \<Longrightarrow> status = NewStatus Success []"
  by (auto simp add: Filter_lookup_def split: if_splits sum.splits)

text \<open>
  C8.  When the pod listing succeeds and at most one listed pod is a sibling (an owner
  reference of the resolved controller's kind and UID, phase Pending or Running),
  \<^verbatim>\<open>Filter\<close> admits, whatever the required host count and the candidate node.
\<close>

theorem at_most_one_sibling_admits:
  assumes "getControllerInfo pod = (controller, ok)"
      and "podLister csf (pod_Namespace pod) = Inr allPods"
      and "length (filter (spec_sibling controller) allPods) \<le> 1"
  shows "fst (Filter csf ctx cycleState pod nodeInfo) = NewStatus Success []"
proof (cases ok)
  case False
  then show ?thesis using assms(1) by (simp add: Filter_def)
next
  case True
  obtain r reads where l: "Filter_lookup csf pod controller = (r, reads)"
    by (cases "Filter_lookup csf pod controller")
  show ?thesis
  proof (cases r)
    case (Inl status)
    then show ?thesis
      using assms(1) True l Filter_lookup_Inl [of csf pod controller status reads]
      by (simp add: Filter_def)
  next
    case (Inr da)
    obtain desired annotations where da: "da = (desired, annotations)" by (cases da)
    have g: "getControllerInfo pod = (controller, True)" using assms(1) True by simp
    have l': "Filter_lookup csf pod controller = (Inr (desired, annotations), reads)"
      using l Inr da by simp
    have "fst (Filter_census csf pod nodeInfo controller desired annotations) = NewStatus Success []"
    proof (cases "sint desired \<le> 1")
      case True
      then show ?thesis by (simp add: Filter_census_def)
    next
      case False
      show ?thesis
        using Filter_census_listed [OF False assms(2)] assms(3) by simp
    qed
    then show ?thesis using Filter_after_lookup [OF g l'] by simp
  qed
qed

theorem at_most_one_sibling_admits_witness:
  "fst (Filter example_store_single Live CycleState example_pod \<lparr>node_Name = ''n1''\<rparr>)
     = NewStatus Success []"
proof -
  have p: "podLister example_store_single (pod_Namespace example_pod) = Inr [example_sibling]"
    by (simp add: example_store_single_def example_defs)
  have n: "length (filter (spec_sibling example_controller) [example_sibling]) \<le> 1"
    by simp
  show ?thesis
    using at_most_one_sibling_admits [OF example_resolved p n] .
qed

subsection \<open>C9: the invocation's context\<close>

lemma Filter_decision_not_Error:
  "Filter_decision requiredHosts nodeSet nodeInfo \<noteq> NewStatus Error reasons"
  by (simp add: Filter_decision_def Let_def)

lemma Filter_census_Error:
  assumes "fst (Filter_census csf pod nodeInfo controller desired annotations) = NewStatus Error reasons"
  shows "\<exists>err. podLister csf (pod_Namespace pod) = Inl err
           \<and> reasons = [''error listing pods: '' @ Error_text err]"
proof (cases "podLister csf (pod_Namespace pod)")
  case (Inl err)
  then show ?thesis
    using assms by (simp add: Filter_census_def split: if_splits)
next
  case (Inr allPods)
  then show ?thesis
    using assms Filter_decision_not_Error
    by (simp add: Filter_census_def Let_def split: if_splits)
qed

lemma example_census:
  "Filter_census (example_store (Some 3) Map.empty) example_pod \<lparr>node_Name = ''n1''\<rparr>
      example_controller 3 Map.empty =
     (NewStatus Unschedulable [''must schedule across at least 2 distinct nodes''],
      [ListPods ''prod''])"
proof -
  have d: "\<not> sint (3 :: int32) \<le> 1" by simp
  have p: "podLister (example_store (Some 3) Map.empty) (pod_Namespace example_pod)
             = Inr [example_sibling, example_pod]"
    by (simp add: example_store_def)
  have f: "filter (spec_sibling example_controller) [example_sibling, example_pod] =
             [example_sibling, example_pod]"
    using example_siblings by simp
  have r: "Filter_requiredHosts 3 Map.empty = 2"
    by (simp add: Filter_requiredHosts_def min_int32_def)
  show ?thesis
    unfolding Filter_census_listed [OF d p] f r
    by (simp add: Filter_decision_def Sprintf_d_def decimal.simps example_pod_def example_sibling_def)
qed

text \<open>
  C9, amended.  \<^verbatim>\<open>Filter\<close> never inspects its context: with a cancelled or expired
  context it returns what it returns with a live one, store reads included, and the
  Error status arises only from a failed pod listing.
\<close>

theorem Filter_ignores_context:
  "Filter csf ctx cycleState pod nodeInfo = Filter csf Live cycleState pod nodeInfo
   \<and> (fst (Filter csf ctx cycleState pod nodeInfo) = NewStatus Error reasons \<longrightarrow>
        (\<exists>err. podLister csf (pod_Namespace pod) = Inl err
           \<and> reasons = [''error listing pods: '' @ Error_text err]))"
proof -
  have a: "Filter csf ctx cycleState pod nodeInfo = Filter csf Live cycleState pod nodeInfo"
    by (simp add: Filter_def)
  have b: "\<exists>err. podLister csf (pod_Namespace pod) = Inl err
             \<and> reasons = [''error listing pods: '' @ Error_text err]"
    if e: "fst (Filter csf ctx cycleState pod nodeInfo) = NewStatus Error reasons"
  proof -
    obtain controller ok where g: "getControllerInfo pod = (controller, ok)"
      by (cases "getControllerInfo pod")
    have ok: ok using e g by (cases ok) (simp_all add: Filter_def)
    obtain r reads where l: "Filter_lookup csf pod controller = (r, reads)"
      by (cases "Filter_lookup csf pod controller")
    show ?thesis
    proof (cases r)
      case (Inl status)
      then have "status = NewStatus Success []" using l Filter_lookup_Inl by blast
      then show ?thesis using e g ok l Inl by (simp add: Filter_def)
    next
      case (Inr da)
      obtain desired annotations where da: "da = (desired, annotations)" by (cases da)
      have "fst (Filter_census csf pod nodeInfo controller desired annotations) = NewStatus Error reasons"
        using e g ok l Inr da by (simp add: Filter_def split: prod.splits)
      then show ?thesis by (rule Filter_census_Error)
    qed
  qed
  show ?thesis using a b by blast
qed

theorem Filter_ignores_context_witness:
  "Filter example_store_list_fails Canceled CycleState example_pod \<lparr>node_Name = ''n2''\<rparr>
     = Filter example_store_list_fails Live CycleState example_pod \<lparr>node_Name = ''n2''\<rparr>
   \<and> (\<exists>err. podLister example_store_list_fails (pod_Namespace example_pod) = Inl err
         \<and> [''error listing pods: pod cache unavailable''] = [''error listing pods: '' @ Error_text err])"
proof -
  have "Filter_census example_store_list_fails example_pod \<lparr>node_Name = ''n2''\<rparr>
          example_controller 3 Map.empty =
          (NewStatus Error [''error listing pods: pod cache unavailable''], [ListPods ''prod''])"
    by (simp add: Filter_census_def example_store_list_fails_def example_store_def example_pod_def)
  then have e: "fst (Filter example_store_list_fails Canceled CycleState example_pod \<lparr>node_Name = ''n2''\<rparr>)
             = NewStatus Error [''error listing pods: pod cache unavailable'']"
    using Filter_after_lookup [OF example_resolved example_lookup_list_fails,
        of Canceled CycleState "\<lparr>node_Name = ''n2''\<rparr>"]
    by simp
  show ?thesis
    using Filter_ignores_context [of example_store_list_fails Canceled CycleState example_pod
        "\<lparr>node_Name = ''n2''\<rparr>" "[''error listing pods: pod cache unavailable'']"] e
    by blast
qed

text \<open>
  The claim as stated fails: with a cancelled context, three desired replicas, a sibling
  on \<open>n1\<close> and the candidate \<open>n1\<close>, the predicate reads both stores and rejects.
\<close>

theorem Filter_cancelled_context_counterexample:
  "Filter (example_store (Some 3) Map.empty) Canceled CycleState example_pod \<lparr>node_Name = ''n1''\<rparr> =
     (NewStatus Unschedulable [''must schedule across at least 2 distinct nodes''],
      [GetReplicaSet ''prod'' ''web'', ListPods ''prod''])"
  using Filter_after_lookup [OF example_resolved example_lookup [of "Some 3" Map.empty],
      of Canceled CycleState "\<lparr>node_Name = ''n1''\<rparr>"]
  by (simp add: example_census)

subsection \<open>C10: the pod being scheduled is part of the census\<close>

text \<open>
  C10.  The census does not leave out the pod being scheduled.  Let \<open>q\<close> be the pod
  itself or any pod with an owner reference of the resolved controller's kind and UID;
  when \<open>q\<close> is Pending or Running and stands anywhere in the listing, it adds one to
  the length of \<^verbatim>\<open>controllerPods\<close> (the total tested by the at-most-one shortcut), and
  its node name, when not empty, is in the node set.
\<close>

theorem census_counts_the_pod_itself:
  assumes "getControllerInfo pod = (controller, True)"
      and "q = pod \<or> isOwnedByController q controller"
      and "pod_Phase q = PodPending \<or> pod_Phase q = PodRunning"
  shows "length (controllerPods_loop (before @ q # after) controller []) =
           Suc (length (controllerPods_loop (before @ after) controller []))
         \<and> (pod_NodeName q \<noteq> [] \<longrightarrow>
              pod_NodeName q \<in> nodeSet_loop (controllerPods_loop (before @ q # after) controller []) {})"
proof -
  have "isOwnedByController q controller"
    using assms(1,2) getControllerInfo_owned by blast
  then have s: "spec_sibling controller q"
    using assms(3) sibling_iff [of q controller] by blast
  show ?thesis
    using s by (simp add: controllerPods_loop_filter nodeSet_loop_set)
qed

theorem census_counts_the_pod_itself_witness:
  "length (controllerPods_loop ([example_sibling] @ example_pod # []) example_controller []) =
     Suc (length (controllerPods_loop ([example_sibling] @ []) example_controller []))
   \<and> ''n1'' \<in> nodeSet_loop (controllerPods_loop ([] @ example_sibling # [example_pod]) example_controller []) {}"
proof -
  have a: "example_pod = example_pod \<or> isOwnedByController example_pod example_controller"
    by simp
  have b: "pod_Phase example_pod = PodPending \<or> pod_Phase example_pod = PodRunning"
    by (simp add: example_pod_def PodPending_def)
  have c: "example_sibling = example_pod \<or> isOwnedByController example_sibling example_controller"
    by (simp add: isOwnedByController_def example_sibling_def example_owner_def example_controller_def)
  have d: "pod_Phase example_sibling = PodPending \<or> pod_Phase example_sibling = PodRunning"
    by (simp add: example_sibling_def PodRunning_def)
  have n: "pod_NodeName example_sibling = ''n1''"
    by (simp add: example_sibling_def)
  show ?thesis
    using census_counts_the_pod_itself [OF example_resolved a b, of "[example_sibling]" "[]"]
      census_counts_the_pod_itself [OF example_resolved c d, of "[]" "[example_pod]"]
    unfolding n by blast
qed

end
